theory Spec2Isabelle
  imports Main
begin

section \<open>Data model (src/types.ts)\<close>

text \<open>
  The TypeScript interfaces become records, the enums datatypes. Amounts, counters and
  timestamps are whole numbers (rupees, counts, milliseconds) that the code only adds
  and compares, so a \<open>number\<close> is an \<open>int\<close>. An optional field (\<open>bio?\<close>,
  \<open>proExpiry?\<close>) is an \<open>option\<close>. Field names are the source's; where two
  interfaces share a field name the later record carries a prefix (\<open>f_\<close> SavedFilter,
  \<open>rv_\<close> Review, \<open>t_\<close> Transaction, \<open>r_\<close> Request).
\<close>

datatype Role = USER | ADMIN

datatype RequestStatus = PENDING | APPROVED | REJECTED

datatype TransactionType = deposit | purchase | withdrawal | subscription

record SavedFilter =
  f_id :: string
  f_label :: string
  f_searchTerm :: string
  f_category :: string

record NotificationSettings =
  emailNotifyApproval :: bool
  emailNotifyReview :: bool
  emailNotifyPurchase :: bool

record ProMetrics =
  savedFees :: int
  reputationMultiplier :: int
  priorityQueueActive :: bool
  vaultAccessLevel :: int

record User =
  uid :: string
  name :: string
  email :: string
  bio :: "string option"
  role :: Role
  joinedAt :: int
  wishlist :: "string list"
  savedFilters :: "SavedFilter list"
  walletBalance :: int
  avatar :: "string option"
  reputation :: int
  isPro :: bool
  proExpiry :: "int option"
  notificationSettings :: NotificationSettings
  proMetrics :: "ProMetrics option"

record Transaction =
  t_userId :: string
  t_amount :: int
  t_type :: TransactionType
  t_description :: string
  t_createdAt :: int

record Review =
  rv_id :: string
  rv_userId :: string
  rv_userName :: string
  rv_rating :: int
  rv_comment :: string
  rv_createdAt :: int

text \<open>
  A product document. \<open>rejected\<close> is not declared in the \<open>Product\<close> interface but
  \<open>rejectProduct\<close> writes it into the document, so the stored document has it
  (absent until then). The document id is the key of the collection, not a field.
\<close>

record Product =
  title :: string
  description :: string
  price :: int
  previewImage :: string
  images :: "string list"
  mediafireLink :: string
  approved :: bool
  rejected :: "bool option"
  sellerId :: string
  sellerName :: string
  category :: string
  tags :: "string list"
  createdAt :: int
  rating :: int
  reviewCount :: int
  salesCount :: int
  viewCount :: int
  downloadCount :: int
  lastUpdate :: int
  reviews :: "Review list"
  isPriority :: "bool option"

record Request =
  r_userId :: string
  r_productId :: string
  r_paymentProof :: "string option"
  r_status :: RequestStatus
  r_approvedAt :: "int option"
  r_createdAt :: int
  r_isWalletPurchase :: bool

section \<open>The Firestore store and its primitives\<close>

text \<open>
  The database \<open>db\<close> of src/services/firebase.ts, restricted to the four collections
  that src/services/mockApi.ts writes. \<open>users\<close> and \<open>products\<close> are read by
  document id and are maps from id to document; \<open>transactions\<close> and \<open>requests\<close>
  are only ever appended to (\<open>addDoc\<close>) and queried by field, so they are the lists
  of their documents in insertion order and the generated document id is left out.
\<close>

record store =
  users :: "string \<rightharpoonup> User"
  products :: "string \<rightharpoonup> Product"
  transactions :: "Transaction list"
  requests :: "Request list"

text \<open>
  What an operation can throw: the three \<open>Error\<close>s of mockApi.ts, named after their
  messages (``Entity missing'', ``Insufficient balance'', ``Insufficient balance for Pro
  upgrade''), the rejection of \<open>updateDoc\<close> on a document that does not exist
  (Firestore's \<open>not-found\<close>), and a rejection by the authentication service.
\<close>

datatype error =
    EntityMissing
  | InsufficientBalance
  | InsufficientBalancePro
  | NotFound
  | AuthError

text \<open>
  An operation takes the store and returns the store it leaves behind together with
  its value or the error it throws: a throw keeps the writes already made.
\<close>

type_synonym 'a result = "store \<times> (error + 'a)"

definition emptyStore :: store where
  "emptyStore = \<lparr>users = Map.empty, products = Map.empty, transactions = [], requests = []\<rparr>"

definition updateDoc_users :: "store \<Rightarrow> string \<Rightarrow> (User \<Rightarrow> User) \<Rightarrow> error + store" where
  "updateDoc_users s k f =
     (case users s k of
        None \<Rightarrow> Inl NotFound
      | Some u \<Rightarrow> Inr (s\<lparr>users := (users s)(k \<mapsto> f u)\<rparr>))"

definition updateDoc_products :: "store \<Rightarrow> string \<Rightarrow> (Product \<Rightarrow> Product) \<Rightarrow> error + store" where
  "updateDoc_products s k f =
     (case products s k of
        None \<Rightarrow> Inl NotFound
      | Some p \<Rightarrow> Inr (s\<lparr>products := (products s)(k \<mapsto> f p)\<rparr>))"

definition setDoc_users :: "store \<Rightarrow> string \<Rightarrow> User \<Rightarrow> store" where
  "setDoc_users s k u = s\<lparr>users := (users s)(k \<mapsto> u)\<rparr>"

definition addDoc_transactions :: "store \<Rightarrow> Transaction \<Rightarrow> store" where
  "addDoc_transactions s t = s\<lparr>transactions := transactions s @ [t]\<rparr>"

definition addDoc_requests :: "store \<Rightarrow> Request \<Rightarrow> store" where
  "addDoc_requests s r = s\<lparr>requests := requests s @ [r]\<rparr>"

definition addDoc_products :: "store \<Rightarrow> string \<Rightarrow> Product \<Rightarrow> store" where
  "addDoc_products s newId p = s\<lparr>products := (products s)(newId \<mapsto> p)\<rparr>"

section \<open>The API (src/services/mockApi.ts)\<close>

text \<open>
  Every \<open>Date.now()\<close> of the source is a parameter \<open>now\<close>, one per call site, in
  the order the source evaluates them.
\<close>

definition defaultSettings :: NotificationSettings where
  "defaultSettings =
     \<lparr>emailNotifyApproval = True, emailNotifyReview = True, emailNotifyPurchase = True\<rparr>"

subsection \<open>User data\<close>

definition getSellerData :: "store \<Rightarrow> string \<Rightarrow> User option" where
  "getSellerData s uid' = users s uid'"

text \<open>
  \<open>register\<close>: a missing or empty password returns null before anything else;
  \<open>authUid\<close> is what \<open>createUserWithEmailAndPassword\<close> answers (\<open>None\<close> when it
  rejects).
\<close>

definition register :: "store \<Rightarrow> string \<Rightarrow> string \<Rightarrow> string option \<Rightarrow> string option \<Rightarrow> int
    \<Rightarrow> User option result" where
  "register s name' email' password authUid now =
     (if password = None \<or> password = Some [] then (s, Inr None)
      else case authUid of
        None \<Rightarrow> (s, Inl AuthError)
      | Some credUid \<Rightarrow>
          let newUser = \<lparr>uid = credUid, name = name', email = email',
                bio = Some ''initialized agent identity.'', role = USER, joinedAt = now,
                wishlist = [], savedFilters = [], walletBalance = 0, avatar = None,
                reputation = 50, isPro = False, proExpiry = None,
                notificationSettings = defaultSettings, proMetrics = None\<rparr>
          in (setDoc_users s credUid newUser, Inr (Some newUser)))"

record FirebaseUser =
  fb_uid :: string
  fb_displayName :: "string option"
  fb_email :: string
  fb_photoURL :: "string option"

definition syncExternalUser :: "store \<Rightarrow> FirebaseUser \<Rightarrow> int \<Rightarrow> User result" where
  "syncExternalUser s firebaseUser now =
     (case users s (fb_uid firebaseUser) of
        Some u \<Rightarrow> (s, Inr u)
      | None \<Rightarrow>
          let newUser = \<lparr>uid = fb_uid firebaseUser,
                name = (case fb_displayName firebaseUser of
                          None \<Rightarrow> ''Cyber Agent''
                        | Some d \<Rightarrow> if d = [] then ''Cyber Agent'' else d),
                email = fb_email firebaseUser,
                bio = Some ''Technical recruit in the Codastra network.'', role = USER,
                joinedAt = now, wishlist = [], savedFilters = [], walletBalance = 0,
                avatar = fb_photoURL firebaseUser, reputation = 50, isPro = False,
                proExpiry = None, notificationSettings = defaultSettings,
                proMetrics = None\<rparr>
          in (setDoc_users s (fb_uid firebaseUser) newUser, Inr newUser))"

definition updateNotificationSettings :: "store \<Rightarrow> string \<Rightarrow> NotificationSettings
    \<Rightarrow> User option result" where
  "updateNotificationSettings s userId settings =
     (case updateDoc_users s userId (\<lambda>u. u\<lparr>notificationSettings := settings\<rparr>) of
        Inl e \<Rightarrow> (s, Inl e)
      | Inr s1 \<Rightarrow> (s1, Inr (getSellerData s1 userId)))"

text \<open>
  \<open>upgradeToPro\<close>: the fee 999 and the duration \<open>365 * 86400000\<close> ms are the
  source's literals. \<open>now1\<close> is the clock read for \<open>proExpiry\<close>, \<open>now2\<close> the one
  for the transaction's \<open>createdAt\<close>.
\<close>

definition upgradeToPro :: "store \<Rightarrow> string \<Rightarrow> int \<Rightarrow> int \<Rightarrow> User option result" where
  "upgradeToPro s userId now1 now2 =
     (case getSellerData s userId of
        None \<Rightarrow> (s, Inr None)
      | Some user \<Rightarrow>
          if walletBalance user < 999 then (s, Inl InsufficientBalancePro)
          else
            case updateDoc_users s userId
                   (\<lambda>u. u\<lparr>walletBalance := walletBalance u + (- 999), isPro := True,
                          proExpiry := Some (now1 + 365 * 86400000)\<rparr>) of
              Inl e \<Rightarrow> (s, Inl e)
            | Inr s1 \<Rightarrow>
                let s2 = addDoc_transactions s1
                      \<lparr>t_userId = userId, t_amount = - 999, t_type = subscription,
                       t_description = ''Elite Pro Subscription (1 Year)'',
                       t_createdAt = now2\<rparr>
                in (s2, Inr (getSellerData s2 userId)))"

text \<open>
  The stores \<open>upgradeToPro\<close> passes through: the one it starts from and the one after
  each of its two awaited writes (the \<open>updateDoc\<close> of lines 113-117, the \<open>addDoc\<close>
  of lines 119-125). A call that returns null or throws before the first write has only
  the store it started from.
\<close>

definition upgradeToPro_states :: "store \<Rightarrow> string \<Rightarrow> int \<Rightarrow> int \<Rightarrow> store list" where
  "upgradeToPro_states s userId now1 now2 =
     (case getSellerData s userId of
        None \<Rightarrow> [s]
      | Some user \<Rightarrow>
          if walletBalance user < 999 then [s]
          else
            case updateDoc_users s userId
                   (\<lambda>u. u\<lparr>walletBalance := walletBalance u + (- 999), isPro := True,
                          proExpiry := Some (now1 + 365 * 86400000)\<rparr>) of
              Inl e \<Rightarrow> [s]
            | Inr s1 \<Rightarrow>
                [s, s1,
                 addDoc_transactions s1
                   \<lparr>t_userId = userId, t_amount = - 999, t_type = subscription,
                    t_description = ''Elite Pro Subscription (1 Year)'',
                    t_createdAt = now2\<rparr>])"

subsection \<open>Products\<close>

text \<open>
  \<open>getProductById\<close> answers the snapshot it read (with the document id beside it)
  and, when the document exists, bumps its \<open>viewCount\<close> in the store.
\<close>

definition getProductById :: "store \<Rightarrow> string \<Rightarrow> (string \<times> Product) option result" where
  "getProductById s id' =
     (case products s id' of
        Some pDoc \<Rightarrow>
          (case updateDoc_products s id' (\<lambda>p. p\<lparr>viewCount := viewCount p + 1\<rparr>) of
             Inl e \<Rightarrow> (s, Inl e)
           | Inr s1 \<Rightarrow> (s1, Inr (Some (id', pDoc))))
      | None \<Rightarrow> (s, Inr None))"

text \<open>
  \<open>submitProduct\<close>: \<open>productData\<close> is the form's payload (src/App.tsx), the other
  fields are set by the API; \<open>newId\<close> is the document id \<open>addDoc\<close> generates.
\<close>

record ProductData =
  pd_title :: string
  pd_description :: string
  pd_price :: int
  pd_category :: string
  pd_previewImage :: string
  pd_mediafireLink :: string
  pd_images :: "string list"
  pd_tags :: "string list"

definition submitProduct :: "store \<Rightarrow> string \<Rightarrow> string \<Rightarrow> ProductData \<Rightarrow> string \<Rightarrow> int \<Rightarrow> int
    \<Rightarrow> (string \<times> Product) result" where
  "submitProduct s userId userName productData newId now1 now2 =
     (let user = getSellerData s userId;
          newProduct = \<lparr>title = pd_title productData,
            description = pd_description productData, price = pd_price productData,
            previewImage = pd_previewImage productData, images = pd_images productData,
            mediafireLink = pd_mediafireLink productData, approved = False,
            rejected = None, sellerId = userId, sellerName = userName,
            category = pd_category productData, tags = pd_tags productData,
            createdAt = now1, rating = 0, reviewCount = 0, salesCount = 0, viewCount = 0,
            downloadCount = 0, lastUpdate = now2, reviews = [],
            isPriority = Some (case user of None \<Rightarrow> False | Some u \<Rightarrow> isPro u)\<rparr>
      in (addDoc_products s newId newProduct, Inr (newId, newProduct)))"

subsection \<open>Transactions and purchases\<close>

text \<open>
  \<open>addFunds\<close> makes two awaited writes, the balance first and the transaction
  record second, and then reads the account again; \<open>updated?.walletBalance || 0\<close>
  is the balance read, or 0 when there is no account.
\<close>

definition addFunds :: "store \<Rightarrow> string \<Rightarrow> int \<Rightarrow> int \<Rightarrow> int result" where
  "addFunds s userId amount now =
     (case updateDoc_users s userId (\<lambda>u. u\<lparr>walletBalance := walletBalance u + amount\<rparr>) of
        Inl e \<Rightarrow> (s, Inl e)
      | Inr s1 \<Rightarrow>
          let s2 = addDoc_transactions s1
                \<lparr>t_userId = userId, t_amount = amount, t_type = deposit,
                 t_description = ''Wallet Deposit via Secure Gateway'',
                 t_createdAt = now\<rparr>;
              updated = getSellerData s2 userId
          in (s2, Inr (case updated of None \<Rightarrow> 0 | Some u \<Rightarrow> walletBalance u)))"

text \<open>
  The stores \<open>addFunds\<close> passes through: the one it starts from and the one after
  each awaited write. Each is what the database holds, for any reader, until the
  next write lands.
\<close>

definition addFunds_states :: "store \<Rightarrow> string \<Rightarrow> int \<Rightarrow> int \<Rightarrow> store list" where
  "addFunds_states s userId amount now =
     (case updateDoc_users s userId (\<lambda>u. u\<lparr>walletBalance := walletBalance u + amount\<rparr>) of
        Inl e \<Rightarrow> [s]
      | Inr s1 \<Rightarrow>
          [s, s1,
           addDoc_transactions s1
             \<lparr>t_userId = userId, t_amount = amount, t_type = deposit,
              t_description = ''Wallet Deposit via Secure Gateway'',
              t_createdAt = now\<rparr>])"

text \<open>
  \<open>createRequest\<close>: \<open>now1\<close> is the clock read for the transaction, \<open>now2\<close> and
  \<open>now3\<close> the ones for the request's \<open>createdAt\<close> and \<open>approvedAt\<close>.
  \<open>paymentProof || ''\<close> turns a missing proof into the empty string.
\<close>

definition newRequest :: "string \<Rightarrow> string \<Rightarrow> string option \<Rightarrow> bool \<Rightarrow> int \<Rightarrow> int \<Rightarrow> Request" where
  "newRequest userId productId paymentProof isWalletPurchase now2 now3 =
     \<lparr>r_userId = userId, r_productId = productId,
      r_paymentProof = Some (case paymentProof of None \<Rightarrow> [] | Some pp \<Rightarrow> pp),
      r_status = (if isWalletPurchase then APPROVED else PENDING),
      r_approvedAt = (if isWalletPurchase then Some now3 else None),
      r_createdAt = now2, r_isWalletPurchase = isWalletPurchase\<rparr>"

definition createRequest :: "store \<Rightarrow> string \<Rightarrow> string \<Rightarrow> string option \<Rightarrow> bool
    \<Rightarrow> int \<Rightarrow> int \<Rightarrow> int \<Rightarrow> Request result" where
  "createRequest s userId productId paymentProof isWalletPurchase now1 now2 now3 =
     (let user = getSellerData s userId in
      case getProductById s productId of
        (s1, Inl e) \<Rightarrow> (s1, Inl e)
      | (s1, Inr product) \<Rightarrow>
          (case (user, product) of
             (Some u, Some (pid, p)) \<Rightarrow>
               let req = newRequest userId productId paymentProof isWalletPurchase now2 now3
               in
               if isWalletPurchase then
                 if walletBalance u < price p then (s1, Inl InsufficientBalance)
                 else
                   case updateDoc_users s1 userId
                          (\<lambda>x. x\<lparr>walletBalance := walletBalance x + (- price p)\<rparr>) of
                     Inl e \<Rightarrow> (s1, Inl e)
                   | Inr s2 \<Rightarrow>
                       (case updateDoc_products s2 productId
                               (\<lambda>x. x\<lparr>salesCount := salesCount x + 1\<rparr>) of
                          Inl e \<Rightarrow> (s2, Inl e)
                        | Inr s3 \<Rightarrow>
                            let s4 = addDoc_transactions s3
                                  \<lparr>t_userId = userId, t_amount = - price p,
                                   t_type = purchase,
                                   t_description = ''Purchased '' @ title p,
                                   t_createdAt = now1\<rparr>
                            in (addDoc_requests s4 req, Inr req))
               else (addDoc_requests s1 req, Inr req)
           | _ \<Rightarrow> (s1, Inl EntityMissing)))"

text \<open>
  \<open>getUserPurchases\<close> fetches the product of each of the user's requests through
  \<open>getProductById\<close>. The source starts the fetches together (\<open>Promise.all\<close>), so
  a read may come before the view increments of the other fetches; here the fetches are
  taken one after the other in the order of the requests. The store left behind is the
  same under either order (each fetch adds one to a \<open>viewCount\<close>); the
  \<open>viewCount\<close> values inside the returned snapshots can differ, and nothing below
  depends on them.
\<close>

fun getUserPurchases_docs :: "store \<Rightarrow> Request list
    \<Rightarrow> ((string \<times> Product) \<times> RequestStatus) option list result" where
  "getUserPurchases_docs s [] = (s, Inr [])"
| "getUserPurchases_docs s (d # ds) =
     (case getProductById s (r_productId d) of
        (s1, Inl e) \<Rightarrow> (s1, Inl e)
      | (s1, Inr product) \<Rightarrow>
          (case getUserPurchases_docs s1 ds of
             (s2, Inl e) \<Rightarrow> (s2, Inl e)
           | (s2, Inr rest) \<Rightarrow>
               (s2, Inr ((case product of
                            None \<Rightarrow> None
                          | Some p \<Rightarrow> Some (p, r_status d)) # rest))))"

definition getUserPurchases :: "store \<Rightarrow> string
    \<Rightarrow> ((string \<times> Product) \<times> RequestStatus) list result" where
  "getUserPurchases s userId =
     (case getUserPurchases_docs s (filter (\<lambda>r. r_userId r = userId) (requests s)) of
        (s1, Inl e) \<Rightarrow> (s1, Inl e)
      | (s1, Inr results) \<Rightarrow> (s1, Inr (List.map_filter (\<lambda>x. x) results)))"

subsection \<open>Moderation\<close>

definition approveProduct :: "store \<Rightarrow> string \<Rightarrow> bool result" where
  "approveProduct s productId =
     (case updateDoc_products s productId (\<lambda>p. p\<lparr>approved := True\<rparr>) of
        Inl e \<Rightarrow> (s, Inl e)
      | Inr s1 \<Rightarrow> (s1, Inr True))"

definition rejectProduct :: "store \<Rightarrow> string \<Rightarrow> bool result" where
  "rejectProduct s productId =
     (case updateDoc_products s productId
             (\<lambda>p. p\<lparr>approved := False, rejected := Some True\<rparr>) of
        Inl e \<Rightarrow> (s, Inl e)
      | Inr s1 \<Rightarrow> (s1, Inr True))"

subsection \<open>Profile: wishlist and saved filters\<close>

definition toggleWishlist :: "store \<Rightarrow> string \<Rightarrow> string \<Rightarrow> string list result" where
  "toggleWishlist s userId productId =
     (case getSellerData s userId of
        None \<Rightarrow> (s, Inr [])
      | Some user \<Rightarrow>
          let wl = (if productId \<in> set (wishlist user)
                    then filter (\<lambda>i. i \<noteq> productId) (wishlist user)
                    else wishlist user @ [productId])
          in case updateDoc_users s userId (\<lambda>u. u\<lparr>wishlist := wl\<rparr>) of
               Inl e \<Rightarrow> (s, Inl e)
             | Inr s1 \<Rightarrow> (s1, Inr wl))"

text \<open>The decimal digits of a clock value, for the id \<open>filt${Date.now()}\<close>.\<close>

fun natToString :: "nat \<Rightarrow> string" where
  "natToString n =
     (if n < 10 then [char_of (48 + n)]
      else natToString (n div 10) @ [char_of (48 + n mod 10)])"

declare natToString.simps [simp del]

definition numberToString :: "int \<Rightarrow> string" where
  "numberToString i = (if i < 0 then CHR ''-'' # natToString (nat (- i)) else natToString (nat i))"

record FilterData =
  fd_label :: string
  fd_searchTerm :: string
  fd_category :: string

definition saveUserFilter :: "store \<Rightarrow> string \<Rightarrow> FilterData \<Rightarrow> int \<Rightarrow> SavedFilter list result" where
  "saveUserFilter s userId filter' now =
     (case getSellerData s userId of
        None \<Rightarrow> (s, Inr [])
      | Some user \<Rightarrow>
          let newFilters = savedFilters user @
                [\<lparr>f_id = ''filt'' @ numberToString now, f_label = fd_label filter',
                  f_searchTerm = fd_searchTerm filter',
                  f_category = fd_category filter'\<rparr>]
          in case updateDoc_users s userId (\<lambda>u. u\<lparr>savedFilters := newFilters\<rparr>) of
               Inl e \<Rightarrow> (s, Inl e)
             | Inr s1 \<Rightarrow> (s1, Inr newFilters))"

definition deleteUserFilter :: "store \<Rightarrow> string \<Rightarrow> string \<Rightarrow> SavedFilter list result" where
  "deleteUserFilter s userId filterId =
     (case getSellerData s userId of
        None \<Rightarrow> (s, Inr [])
      | Some user \<Rightarrow>
          let filtered = filter (\<lambda>f. f_id f \<noteq> filterId) (savedFilters user)
          in case updateDoc_users s userId (\<lambda>u. u\<lparr>savedFilters := filtered\<rparr>) of
               Inl e \<Rightarrow> (s, Inl e)
             | Inr s1 \<Rightarrow> (s1, Inr filtered))"

section \<open>Observations on the store\<close>

text \<open>
  The ledger side of an account: the sum of the signed amounts of its transaction
  records, and its balance (0 for an id that has no account).
\<close>

definition txSum :: "store \<Rightarrow> string \<Rightarrow> int" where
  "txSum s userId = sum_list (map t_amount (filter (\<lambda>t. t_userId t = userId) (transactions s)))"

definition balanceOf :: "store \<Rightarrow> string \<Rightarrow> int" where
  "balanceOf s userId = (case users s userId of None \<Rightarrow> 0 | Some u \<Rightarrow> walletBalance u)"

text \<open>
  A request of the pair (account, product) that is pending or approved.
\<close>

definition activeRequestExists :: "store \<Rightarrow> string \<Rightarrow> string \<Rightarrow> bool" where
  "activeRequestExists s userId productId =
     list_ex (\<lambda>r. r_userId r = userId \<and> r_productId r = productId
                 \<and> (r_status r = PENDING \<or> r_status r = APPROVED)) (requests s)"

text \<open>The transaction records the three charging operations write.\<close>

definition depositRecord :: "string \<Rightarrow> int \<Rightarrow> int \<Rightarrow> Transaction" where
  "depositRecord userId amount now =
     \<lparr>t_userId = userId, t_amount = amount, t_type = deposit,
      t_description = ''Wallet Deposit via Secure Gateway'', t_createdAt = now\<rparr>"

definition subscriptionRecord :: "string \<Rightarrow> int \<Rightarrow> Transaction" where
  "subscriptionRecord userId now =
     \<lparr>t_userId = userId, t_amount = - 999, t_type = subscription,
      t_description = ''Elite Pro Subscription (1 Year)'', t_createdAt = now\<rparr>"

definition purchaseRecord :: "string \<Rightarrow> Product \<Rightarrow> int \<Rightarrow> Transaction" where
  "purchaseRecord userId p now =
     \<lparr>t_userId = userId, t_amount = - price p, t_type = purchase,
      t_description = ''Purchased '' @ title p, t_createdAt = now\<rparr>"

section \<open>Sequences of API calls\<close>

text \<open>
  A call of one of the operations that write to the store, with its arguments; the
  read-only operations (\<open>login\<close>, \<open>getSellerData\<close>, \<open>getPublicProducts\<close>,
  \<open>getUserSubmissions\<close>, \<open>getTransactions\<close>, \<open>getNotifications\<close>,
  \<open>getAllProductsAdmin\<close>) leave it as it is. \<open>run\<close> is the store a call leaves
  behind when it runs alone from start to end, \<open>runAll\<close> runs a list of calls one
  after the other. \<open>fresh\<close> is the one thing the model takes from the authentication
  service: the uid it hands to \<open>register\<close> is a new one.
\<close>

datatype call =
    Register string string "string option" "string option" int
  | SyncExternalUser FirebaseUser int
  | UpdateNotificationSettings string NotificationSettings
  | UpgradeToPro string int int
  | GetProductById string
  | SubmitProduct string string ProductData string int int
  | AddFunds string int int
  | CreateRequest string string "string option" bool int int int
  | GetUserPurchases string
  | ApproveProduct string
  | RejectProduct string
  | ToggleWishlist string string
  | SaveUserFilter string FilterData int
  | DeleteUserFilter string string

fun run :: "store \<Rightarrow> call \<Rightarrow> store" where
  "run s (Register n e pw au now) = fst (register s n e pw au now)"
| "run s (SyncExternalUser fu now) = fst (syncExternalUser s fu now)"
| "run s (UpdateNotificationSettings u st) = fst (updateNotificationSettings s u st)"
| "run s (UpgradeToPro u now1 now2) = fst (upgradeToPro s u now1 now2)"
| "run s (GetProductById k) = fst (getProductById s k)"
| "run s (SubmitProduct u n pd k now1 now2) = fst (submitProduct s u n pd k now1 now2)"
| "run s (AddFunds u a now) = fst (addFunds s u a now)"
| "run s (CreateRequest u k pp w now1 now2 now3) = fst (createRequest s u k pp w now1 now2 now3)"
| "run s (GetUserPurchases u) = fst (getUserPurchases s u)"
| "run s (ApproveProduct k) = fst (approveProduct s k)"
| "run s (RejectProduct k) = fst (rejectProduct s k)"
| "run s (ToggleWishlist u k) = fst (toggleWishlist s u k)"
| "run s (SaveUserFilter u fd now) = fst (saveUserFilter s u fd now)"
| "run s (DeleteUserFilter u k) = fst (deleteUserFilter s u k)"

fun fresh :: "store \<Rightarrow> call \<Rightarrow> bool" where
  "fresh s (Register n e pw (Some u) now) = (users s u = None)"
| "fresh s c = True"

fun runAll :: "store \<Rightarrow> call list \<Rightarrow> store option" where
  "runAll s [] = Some s"
| "runAll s (c # cs) = (if fresh s c then runAll (run s c) cs else None)"

text \<open>
  How one call may move the ledger: either the transaction log and every balance stay,
  or one record is appended and the balance of its account moves by its amount.
\<close>

definition ledgerStep :: "store \<Rightarrow> store \<Rightarrow> bool" where
  "ledgerStep s s' \<longleftrightarrow>
     (transactions s' = transactions s \<and> (\<forall>k. balanceOf s' k = balanceOf s k))
   \<or> (\<exists>t. transactions s' = transactions s @ [t]
          \<and> (\<forall>k. balanceOf s' k = balanceOf s k + (if t_userId t = k then t_amount t else 0)))"

section \<open>Example stores\<close>

text \<open>
  A store built through the API: Ada registers and deposits \<open>funds\<close>, Bob submits a
  product priced \<open>cost\<close> (\<open>pendingShop\<close>), and the product is approved
  (\<open>shop\<close>). \<open>shopUser\<close> and \<open>shopProduct\<close> are the two documents this leaves.
\<close>

definition demoData :: "int \<Rightarrow> ProductData" where
  "demoData cost =
     \<lparr>pd_title = ''Kit'', pd_description = ''A kit'', pd_price = cost, pd_category = ''Tools'',
      pd_previewImage = [], pd_mediafireLink = [], pd_images = [], pd_tags = []\<rparr>"

definition shopCalls :: "int \<Rightarrow> int \<Rightarrow> call list" where
  "shopCalls funds cost =
     [Register ''Ada'' ''ada@example.org'' (Some ''pw'') (Some ''u1'') 1,
      AddFunds ''u1'' funds 2,
      SubmitProduct ''u2'' ''Bob'' (demoData cost) ''p1'' 3 4,
      ApproveProduct ''p1'']"

definition pendingShop :: "int \<Rightarrow> int \<Rightarrow> store" where
  "pendingShop funds cost =
     (let s1 = fst (register emptyStore ''Ada'' ''ada@example.org'' (Some ''pw'') (Some ''u1'') 1);
          s2 = fst (addFunds s1 ''u1'' funds 2)
      in fst (submitProduct s2 ''u2'' ''Bob'' (demoData cost) ''p1'' 3 4))"

definition shop :: "int \<Rightarrow> int \<Rightarrow> store" where
  "shop funds cost = fst (approveProduct (pendingShop funds cost) ''p1'')"

definition shopUser :: "int \<Rightarrow> User" where
  "shopUser funds =
     \<lparr>uid = ''u1'', name = ''Ada'', email = ''ada@example.org'',
      bio = Some ''initialized agent identity.'', role = USER, joinedAt = 1,
      wishlist = [], savedFilters = [], walletBalance = funds, avatar = None,
      reputation = 50, isPro = False, proExpiry = None,
      notificationSettings = defaultSettings, proMetrics = None\<rparr>"

definition shopProduct :: "int \<Rightarrow> bool \<Rightarrow> Product" where
  "shopProduct cost ok =
     \<lparr>title = ''Kit'', description = ''A kit'', price = cost, previewImage = [], images = [],
      mediafireLink = [], approved = ok, rejected = None, sellerId = ''u2'',
      sellerName = ''Bob'', category = ''Tools'', tags = [], createdAt = 3, rating = 0,
      reviewCount = 0, salesCount = 0, viewCount = 0, downloadCount = 0, lastUpdate = 4,
      reviews = [], isPriority = Some False\<rparr>"

text \<open>
  The shop after Ada bought the product once from her wallet, after she saved a filter,
  and after she put two products on her wishlist.
\<close>

definition boughtShop :: "int \<Rightarrow> store" where
  "boughtShop funds = fst (createRequest (shop funds 100) ''u1'' ''p1'' None True 5 6 7)"

definition demoFilter :: FilterData where
  "demoFilter = \<lparr>fd_label = ''cheap tools'', fd_searchTerm = ''kit'', fd_category = ''Tools''\<rparr>"

definition filterShop :: store where
  "filterShop = fst (saveUserFilter (shop 0 0) ''u1'' demoFilter 8)"

definition savedDemoFilter :: SavedFilter where
  "savedDemoFilter = \<lparr>f_id = ''filt8'', f_label = ''cheap tools'', f_searchTerm = ''kit'',
     f_category = ''Tools''\<rparr>"

definition wishShop :: store where
  "wishShop =
     fst (toggleWishlist (fst (toggleWishlist (shop 0 0) ''u1'' ''p1'')) ''u1'' ''p2'')"

section \<open>Basic facts about the primitives and the operations\<close>

lemma updateDoc_users_Some:
  "users s k = Some u \<Longrightarrow> updateDoc_users s k f = Inr (s\<lparr>users := (users s)(k \<mapsto> f u)\<rparr>)"
  by (simp add: updateDoc_users_def)

lemma updateDoc_users_None: "users s k = None \<Longrightarrow> updateDoc_users s k f = Inl NotFound"
  by (simp add: updateDoc_users_def)

lemma updateDoc_products_Some:
  "products s k = Some p \<Longrightarrow>
     updateDoc_products s k f = Inr (s\<lparr>products := (products s)(k \<mapsto> f p)\<rparr>)"
  by (simp add: updateDoc_products_def)

lemma updateDoc_products_None: "products s k = None \<Longrightarrow> updateDoc_products s k f = Inl NotFound"
  by (simp add: updateDoc_products_def)

lemma getProductById_Some:
  "products s k = Some p \<Longrightarrow>
     getProductById s k =
       (s\<lparr>products := (products s)(k \<mapsto> p\<lparr>viewCount := viewCount p + 1\<rparr>)\<rparr>, Inr (Some (k, p)))"
  by (simp add: getProductById_def updateDoc_products_Some)

lemma getProductById_None: "products s k = None \<Longrightarrow> getProductById s k = (s, Inr None)"
  by (simp add: getProductById_def)

text \<open>
  The two outcomes of a wallet purchase by an existing account on an existing product.
\<close>

lemma createRequest_insufficient_eq:
  assumes "users s userId = Some u" and "products s productId = Some p"
    and "walletBalance u < price p"
  shows "createRequest s userId productId pp True now1 now2 now3 =
     (s\<lparr>products := (products s)(productId \<mapsto> p\<lparr>viewCount := viewCount p + 1\<rparr>)\<rparr>,
      Inl InsufficientBalance)"
  using assms by (simp add: createRequest_def getSellerData_def getProductById_Some Let_def)

lemma createRequest_wallet_eq:
  assumes "users s userId = Some u" and "products s productId = Some p"
    and "price p \<le> walletBalance u"
  shows "createRequest s userId productId pp True now1 now2 now3 =
     (s\<lparr>products := (products s)(productId \<mapsto>
            p\<lparr>viewCount := viewCount p + 1, salesCount := salesCount p + 1\<rparr>),
         users := (users s)(userId \<mapsto> u\<lparr>walletBalance := walletBalance u - price p\<rparr>),
         transactions := transactions s @
           [\<lparr>t_userId = userId, t_amount = - price p, t_type = purchase,
             t_description = ''Purchased '' @ title p, t_createdAt = now1\<rparr>],
         requests := requests s @ [newRequest userId productId pp True now2 now3]\<rparr>,
      Inr (newRequest userId productId pp True now2 now3))"
  using assms
  by (simp add: createRequest_def getSellerData_def getProductById_Some
      updateDoc_users_Some updateDoc_products_Some addDoc_transactions_def addDoc_requests_def
      Let_def)

lemma toggleWishlist_eq:
  assumes "users s userId = Some u"
  shows "toggleWishlist s userId productId =
     (s\<lparr>users := (users s)(userId \<mapsto> u\<lparr>wishlist :=
           (if productId \<in> set (wishlist u)
            then filter (\<lambda>i. i \<noteq> productId) (wishlist u)
            else wishlist u @ [productId])\<rparr>)\<rparr>,
      Inr (if productId \<in> set (wishlist u)
           then filter (\<lambda>i. i \<noteq> productId) (wishlist u)
           else wishlist u @ [productId]))"
  using assms
  by (simp add: toggleWishlist_def getSellerData_def updateDoc_users_Some Let_def)

subsection \<open>The example stores, evaluated\<close>

lemma pendingShop_eq:
  "pendingShop funds cost =
     \<lparr>users = [''u1'' \<mapsto> shopUser funds], products = [''p1'' \<mapsto> shopProduct cost False],
      transactions = [depositRecord ''u1'' funds 2], requests = []\<rparr>"
  by (simp add: pendingShop_def register_def addFunds_def submitProduct_def
      emptyStore_def setDoc_users_def updateDoc_users_def
      addDoc_transactions_def addDoc_products_def getSellerData_def demoData_def
      shopUser_def shopProduct_def depositRecord_def Let_def)

lemma shop_eq:
  "shop funds cost =
     \<lparr>users = [''u1'' \<mapsto> shopUser funds], products = [''p1'' \<mapsto> shopProduct cost True],
      transactions = [depositRecord ''u1'' funds 2], requests = []\<rparr>"
  by (simp add: shop_def pendingShop_eq approveProduct_def updateDoc_products_def
      shopProduct_def)

lemma shop_users [simp]: "users (shop funds cost) ''u1'' = Some (shopUser funds)"
  by (simp add: shop_eq)

lemma shop_products [simp]: "products (shop funds cost) ''p1'' = Some (shopProduct cost True)"
  by (simp add: shop_eq)

lemma shopCalls_run: "runAll emptyStore (shopCalls funds cost) = Some (shop funds cost)"
  by (simp add: shopCalls_def shop_def pendingShop_def register_def emptyStore_def
      setDoc_users_def Let_def)

lemma boughtShop_eq:
  "100 \<le> funds \<Longrightarrow> boughtShop funds =
      (shop funds 100)\<lparr>users := [''u1'' \<mapsto> shopUser (funds - 100)],
           products := [''p1'' \<mapsto> (shopProduct 100 True)\<lparr>salesCount := 1, viewCount := 1\<rparr>],
           transactions := [depositRecord ''u1'' funds 2,
              purchaseRecord ''u1'' (shopProduct 100 True) 5],
           requests := [newRequest ''u1'' ''p1'' None True 6 7]\<rparr>"
  unfolding boughtShop_def
  by (simp add: createRequest_wallet_eq [of _ _ "shopUser funds" _ "shopProduct 100 True"]
      shop_eq shopUser_def shopProduct_def purchaseRecord_def)

lemma numberToString_8: "numberToString 8 = ''8''"
  by code_simp

lemma filterShop_users:
  "users filterShop ''u1'' = Some ((shopUser 0)\<lparr>savedFilters := [savedDemoFilter]\<rparr>)"
  by (simp add: filterShop_def saveUserFilter_def getSellerData_def updateDoc_users_Some
      demoFilter_def savedDemoFilter_def numberToString_8 shopUser_def Let_def)

lemma wishShop_users:
  "users wishShop ''u1'' = Some ((shopUser 0)\<lparr>wishlist := [''p1'', ''p2'']\<rparr>)"
  by (simp add: wishShop_def toggleWishlist_def getSellerData_def updateDoc_users_def
      shopUser_def shop_eq Let_def)

section \<open>The ledger under sequences of calls\<close>

lemma txSum_append:
  "transactions s' = transactions s @ [t] \<Longrightarrow>
     txSum s' k = txSum s k + (if t_userId t = k then t_amount t else 0)"
  by (simp add: txSum_def)

lemma txSum_same: "transactions s' = transactions s \<Longrightarrow> txSum s' k = txSum s k"
  by (simp add: txSum_def)

lemma ledgerStep_frame:
  "users s' = users s \<Longrightarrow> transactions s' = transactions s \<Longrightarrow> ledgerStep s s'"
  by (simp add: ledgerStep_def balanceOf_def)

lemma ledgerStep_refl: "ledgerStep s s"
  by (simp add: ledgerStep_def)

lemma ledgerStep_user_upd:
  assumes "users s k = Some x" and "walletBalance x' = walletBalance x"
  shows "ledgerStep s (s\<lparr>users := (users s)(k \<mapsto> x')\<rparr>)"
  using assms by (simp add: ledgerStep_def balanceOf_def)

lemma ledgerStep_charge:
  assumes "users s k = Some u" and "walletBalance u' = walletBalance u + a"
    and "users s' = (users s)(k \<mapsto> u')" and "transactions s' = transactions s @ [t]"
    and "t_userId t = k" and "t_amount t = a"
  shows "ledgerStep s s'"
  unfolding ledgerStep_def
  using assms by (intro disjI2 exI [of _ t]) (simp add: balanceOf_def)

lemma getProductById_frame:
  "users (fst (getProductById s k)) = users s
   \<and> transactions (fst (getProductById s k)) = transactions s
   \<and> requests (fst (getProductById s k)) = requests s"
  by (cases "products s k") (simp_all add: getProductById_Some getProductById_None)

lemma getUserPurchases_docs_frame:
  "users (fst (getUserPurchases_docs s ds)) = users s
   \<and> transactions (fst (getUserPurchases_docs s ds)) = transactions s"
proof (induction ds arbitrary: s)
  case Nil
  show ?case by simp
next
  case (Cons d ds)
  obtain s1 r1 where g: "getProductById s (r_productId d) = (s1, r1)"
    by (cases "getProductById s (r_productId d)")
  from getProductById_frame [of s "r_productId d"] g
  have s1: "users s1 = users s" "transactions s1 = transactions s"
    by simp_all
  show ?case
  proof (cases r1)
    case (Inl e)
    with g s1 show ?thesis by simp
  next
    case (Inr product)
    obtain s2 r2 where d: "getUserPurchases_docs s1 ds = (s2, r2)"
      by (cases "getUserPurchases_docs s1 ds")
    from Cons.IH [of s1] d s1
    have "users s2 = users s" "transactions s2 = transactions s"
      by simp_all
    with g Inr d show ?thesis
      by (cases r2) simp_all
  qed
qed

lemma ledgerStep_register: "fresh s (Register n e pw au now) \<Longrightarrow>
    ledgerStep s (fst (register s n e pw au now))"
  by (cases au)
     (auto simp: register_def ledgerStep_def setDoc_users_def balanceOf_def Let_def)

lemma ledgerStep_syncExternalUser: "ledgerStep s (fst (syncExternalUser s fu now))"
  by (auto simp: syncExternalUser_def ledgerStep_def setDoc_users_def balanceOf_def Let_def
      split: option.splits)

lemma ledgerStep_updateNotificationSettings:
  "ledgerStep s (fst (updateNotificationSettings s u st))"
  by (cases "users s u")
     (simp_all add: updateNotificationSettings_def updateDoc_users_def ledgerStep_refl
        ledgerStep_user_upd)

lemma ledgerStep_upgradeToPro: "ledgerStep s (fst (upgradeToPro s u now1 now2))"
proof (cases "users s u")
  case None
  then show ?thesis by (simp add: upgradeToPro_def getSellerData_def ledgerStep_refl)
next
  case (Some x)
  show ?thesis
  proof (cases "walletBalance x < 999")
    case True
    with Some show ?thesis by (simp add: upgradeToPro_def getSellerData_def ledgerStep_refl)
  next
    case False
    with Some show ?thesis
      by (auto simp: upgradeToPro_def getSellerData_def updateDoc_users_Some
          addDoc_transactions_def Let_def intro!: ledgerStep_charge [where a = "- 999"])
  qed
qed

lemma ledgerStep_addFunds: "ledgerStep s (fst (addFunds s u a now))"
proof (cases "users s u")
  case None
  then show ?thesis by (simp add: addFunds_def updateDoc_users_None ledgerStep_refl)
next
  case (Some x)
  then show ?thesis
    by (auto simp: addFunds_def updateDoc_users_Some addDoc_transactions_def Let_def
        intro!: ledgerStep_charge [where a = a])
qed

lemma ledgerStep_createRequest:
  "ledgerStep s (fst (createRequest s u k pp w now1 now2 now3))"
proof (cases "products s k")
  case None
  then show ?thesis
    by (auto simp: createRequest_def getProductById_None ledgerStep_refl Let_def
        split: option.splits)
next
  case p: (Some p)
  show ?thesis
  proof (cases "users s u")
    case None
    with p show ?thesis
      by (auto simp: createRequest_def getSellerData_def getProductById_Some
          intro!: ledgerStep_frame)
  next
    case (Some x)
    show ?thesis
    proof (cases w)
      case False
      with p Some show ?thesis
        by (auto simp: createRequest_def getSellerData_def getProductById_Some
            addDoc_requests_def Let_def intro!: ledgerStep_frame)
    next
      case True
      show ?thesis
      proof (cases "walletBalance x < price p")
        case low: True
        with p Some True show ?thesis
          by (auto simp: createRequest_insufficient_eq intro!: ledgerStep_frame)
      next
        case False
        with p Some True show ?thesis
          by (auto simp: createRequest_wallet_eq
              intro!: ledgerStep_charge [where a = "- price p"])
      qed
    qed
  qed
qed

lemma ledgerStep_profile:
  "ledgerStep s (fst (toggleWishlist s u k))"
  "ledgerStep s (fst (saveUserFilter s u fd now))"
  "ledgerStep s (fst (deleteUserFilter s u k))"
  by (cases "users s u";
      simp add: toggleWishlist_def saveUserFilter_def deleteUserFilter_def getSellerData_def
        updateDoc_users_def ledgerStep_refl ledgerStep_user_upd Let_def)+

lemma ledgerStep_products:
  "ledgerStep s (fst (getProductById s k))"
  "ledgerStep s (fst (submitProduct s u n pd k now1 now2))"
  "ledgerStep s (fst (approveProduct s k))"
  "ledgerStep s (fst (rejectProduct s k))"
  "ledgerStep s (fst (getUserPurchases s u))"
proof -
  show "ledgerStep s (fst (getProductById s k))"
    by (simp add: ledgerStep_frame getProductById_frame)
  show "ledgerStep s (fst (submitProduct s u n pd k now1 now2))"
    by (simp add: submitProduct_def addDoc_products_def Let_def ledgerStep_frame)
  show "ledgerStep s (fst (approveProduct s k))"
    by (cases "products s k")
       (simp_all add: approveProduct_def updateDoc_products_def ledgerStep_frame)
  show "ledgerStep s (fst (rejectProduct s k))"
    by (cases "products s k")
       (simp_all add: rejectProduct_def updateDoc_products_def ledgerStep_frame)
  show "ledgerStep s (fst (getUserPurchases s u))"
  proof -
    let ?ds = "filter (\<lambda>r. r_userId r = u) (requests s)"
    obtain s1 r1 where d: "getUserPurchases_docs s ?ds = (s1, r1)"
      by (cases "getUserPurchases_docs s ?ds")
    with getUserPurchases_docs_frame [of s ?ds]
    have "users s1 = users s" "transactions s1 = transactions s" by simp_all
    with d show ?thesis
      by (cases r1) (simp_all add: getUserPurchases_def ledgerStep_frame)
  qed
qed

lemma ledgerStep_run: "fresh s c \<Longrightarrow> ledgerStep s (run s c)"
  by (cases c)
     (simp_all add: ledgerStep_register ledgerStep_syncExternalUser
        ledgerStep_updateNotificationSettings ledgerStep_upgradeToPro ledgerStep_addFunds
        ledgerStep_createRequest ledgerStep_profile ledgerStep_products del: fresh.simps)

lemma ledgerStep_txSum:
  assumes "ledgerStep s s'" and "\<And>k. txSum s k = balanceOf s k"
  shows "txSum s' k = balanceOf s' k"
  using assms(1) unfolding ledgerStep_def
proof (elim disjE exE conjE)
  assume "transactions s' = transactions s" and "\<forall>k. balanceOf s' k = balanceOf s k"
  then show ?thesis by (simp add: txSum_same assms(2))
next
  fix t
  assume "transactions s' = transactions s @ [t]"
    and "\<forall>k. balanceOf s' k = balanceOf s k + (if t_userId t = k then t_amount t else 0)"
  then show ?thesis by (simp add: txSum_append assms(2))
qed

lemma ledgerStep_delta:
  assumes "ledgerStep s s'" and "balanceOf s' k \<noteq> balanceOf s k"
  shows "\<exists>t. transactions s' = transactions s @ [t] \<and> t_userId t = k
            \<and> t_amount t = balanceOf s' k - balanceOf s k"
proof -
  from assms obtain t where t: "transactions s' = transactions s @ [t]"
    and b: "\<And>j. balanceOf s' j = balanceOf s j + (if t_userId t = j then t_amount t else 0)"
    unfolding ledgerStep_def by auto
  from b [of k] assms(2) have "t_userId t = k"
    by (simp split: if_splits)
  with b [of k] have "t_amount t = balanceOf s' k - balanceOf s k"
    by simp
  with t \<open>t_userId t = k\<close> show ?thesis by blast
qed

lemma runAll_txSum:
  assumes "runAll s0 cs = Some s" and "\<And>k. txSum s0 k = balanceOf s0 k"
  shows "txSum s k = balanceOf s k"
  using assms
proof (induction cs arbitrary: s0)
  case Nil
  then show ?case by simp
next
  case (Cons c cs)
  from Cons.prems(1) have f: "fresh s0 c" and r: "runAll (run s0 c) cs = Some s"
    by (simp_all split: if_splits)
  have "\<And>k. txSum (run s0 c) k = balanceOf (run s0 c) k"
    using ledgerStep_run [OF f] Cons.prems(2) by (rule ledgerStep_txSum)
  with r show ?case by (rule Cons.IH)
qed

lemma emptyStore_ledger: "txSum emptyStore k = balanceOf emptyStore k"
  by (simp add: txSum_def balanceOf_def emptyStore_def)

lemma addFunds_states_last: "last (addFunds_states s u a now) = fst (addFunds s u a now)"
  by (cases "users s u")
     (simp_all add: addFunds_states_def addFunds_def updateDoc_users_def Let_def)

section \<open>The claims\<close>

subsection \<open>C1: a wallet purchase the balance cannot pay for\<close>

text \<open>
  C1. For an existing account and an existing product, when the account's
  \<open>walletBalance\<close> is strictly below the product's \<open>price\<close>, \<open>createRequest\<close>
  with \<open>isWalletPurchase = true\<close> throws ``Insufficient balance''; no request is
  created, no transaction record is appended, the account's balance and the product's
  \<open>salesCount\<close> are what they were.
\<close>

theorem createRequest_insufficient_funds:
  assumes "users s userId = Some u" and "products s productId = Some p"
    and "walletBalance u < price p"
  shows "(let (s', r) = createRequest s userId productId paymentProof True now1 now2 now3
          in r = Inl InsufficientBalance
           \<and> requests s' = requests s
           \<and> transactions s' = transactions s
           \<and> map_option walletBalance (users s' userId) = Some (walletBalance u)
           \<and> map_option salesCount (products s' productId) = Some (salesCount p))"
  using assms by (simp add: createRequest_insufficient_eq)

theorem createRequest_insufficient_funds_witness:
  "walletBalance (shopUser 500) < price (shopProduct 999 True)
   \<and> snd (createRequest (shop 500 999) ''u1'' ''p1'' None True 5 6 7) = Inl InsufficientBalance
   \<and> requests (fst (createRequest (shop 500 999) ''u1'' ''p1'' None True 5 6 7)) = []
   \<and> transactions (fst (createRequest (shop 500 999) ''u1'' ''p1'' None True 5 6 7))
       = [depositRecord ''u1'' 500 2]
   \<and> map_option walletBalance
        (users (fst (createRequest (shop 500 999) ''u1'' ''p1'' None True 5 6 7)) ''u1'')
       = Some 500
   \<and> map_option salesCount
        (products (fst (createRequest (shop 500 999) ''u1'' ''p1'' None True 5 6 7)) ''p1'')
       = Some 0"
  using createRequest_insufficient_funds
    [of "shop 500 999" "''u1''" "shopUser 500" "''p1''" "shopProduct 999 True" None 5 6 7]
  by (simp add: shopUser_def shopProduct_def split_beta shop_eq)

subsection \<open>C2: transaction records and balances\<close>

text \<open>
  \<open>addFunds\<close> writes the balance and the transaction record in two separate awaited
  writes. In the store between them, Ada's balance is 150 while her records sum to 100:
  the equation of C2 does not hold at that point. The store before the call is one the
  API builds from the empty store, and the last store of the list is the one
  \<open>addFunds\<close> returns.
\<close>

theorem addFunds_intermediate_counterexample:
  "runAll emptyStore (shopCalls 100 10) = Some (shop 100 10)
   \<and> addFunds_states (shop 100 10) ''u1'' 50 9 ! 1
       = (shop 100 10)\<lparr>users := [''u1'' \<mapsto> shopUser 150]\<rparr>
   \<and> map_option walletBalance (users (addFunds_states (shop 100 10) ''u1'' 50 9 ! 1) ''u1'')
       = Some 150
   \<and> txSum (addFunds_states (shop 100 10) ''u1'' 50 9 ! 1) ''u1'' = 100
   \<and> last (addFunds_states (shop 100 10) ''u1'' 50 9)
       = fst (addFunds (shop 100 10) ''u1'' 50 9)"
  by (simp add: shopCalls_run addFunds_states_last)
     (simp add: addFunds_states_def updateDoc_users_def shop_eq shopUser_def txSum_def
        depositRecord_def)

text \<open>
  C2, for calls that run one at a time. In every store that a sequence of calls
  builds from the empty store, each call run from start to end, the signed amounts of
  an account's transaction records sum to its balance (accounts start at 0); and a call
  that changes the balance of an account appends exactly one transaction record, of that
  account, whose signed amount is the change.
\<close>

theorem ledger_matches_balances:
  assumes "runAll emptyStore cs = Some s"
  shows "(users s userId = Some u \<longrightarrow> txSum s userId = walletBalance u)
       \<and> (fresh s c \<and> balanceOf (run s c) k \<noteq> balanceOf s k \<longrightarrow>
            (\<exists>t. transactions (run s c) = transactions s @ [t]
                \<and> t_userId t = k
                \<and> t_amount t = balanceOf (run s c) k - balanceOf s k))"
proof (intro conjI impI)
  assume "users s userId = Some u"
  moreover have "txSum s userId = balanceOf s userId"
    using assms emptyStore_ledger by (rule runAll_txSum)
  ultimately show "txSum s userId = walletBalance u"
    by (simp add: balanceOf_def)
next
  assume "fresh s c \<and> balanceOf (run s c) k \<noteq> balanceOf s k"
  then show "\<exists>t. transactions (run s c) = transactions s @ [t] \<and> t_userId t = k
                \<and> t_amount t = balanceOf (run s c) k - balanceOf s k"
    using ledgerStep_run ledgerStep_delta by blast
qed

theorem ledger_matches_balances_witness:
  "runAll emptyStore (shopCalls 1000 100) = Some (shop 1000 100)
   \<and> txSum (shop 1000 100) ''u1'' = 1000
   \<and> balanceOf (shop 1000 100) ''u1'' = 1000
   \<and> balanceOf (run (shop 1000 100) (CreateRequest ''u1'' ''p1'' None True 5 6 7)) ''u1'' = 900
   \<and> (\<exists>t. transactions (run (shop 1000 100) (CreateRequest ''u1'' ''p1'' None True 5 6 7))
             = transactions (shop 1000 100) @ [t]
           \<and> t_userId t = ''u1'' \<and> t_amount t = - 100)"
proof -
  have b0: "balanceOf (shop 1000 100) ''u1'' = 1000"
    by (simp add: balanceOf_def shopUser_def)
  have b1: "balanceOf (fst (createRequest (shop 1000 100) ''u1'' ''p1'' None True 5 6 7)) ''u1''
      = 900"
    by (simp add: balanceOf_def shopUser_def shopProduct_def
        createRequest_wallet_eq [of _ _ "shopUser 1000" _ "shopProduct 100 True"])
  show ?thesis
    using ledger_matches_balances [OF shopCalls_run, of 1000 100 "''u1''" "shopUser 1000"
        "CreateRequest ''u1'' ''p1'' None True 5 6 7" "''u1''"]
    by (simp add: shopCalls_run b0 b1 shopUser_def)
qed

subsection \<open>C3: a second wallet purchase of the same product\<close>

text \<open>
  \<open>createRequest\<close> never reads the \<open>requests\<close> collection. Ada, with 200, has
  bought the product priced 100; her second wallet purchase of it succeeds: a second
  \<open>APPROVED\<close> request, a second purchase record, balance 0, \<open>salesCount\<close> 2.
\<close>

theorem createRequest_duplicate_counterexample:
  "activeRequestExists (boughtShop 200) ''u1'' ''p1''
   \<and> createRequest (boughtShop 200) ''u1'' ''p1'' None True 8 9 10 =
       ((shop 200 100)\<lparr>users := [''u1'' \<mapsto> shopUser 0],
           products := [''p1'' \<mapsto> (shopProduct 100 True)\<lparr>salesCount := 2, viewCount := 2\<rparr>],
           transactions := [depositRecord ''u1'' 200 2,
              purchaseRecord ''u1'' (shopProduct 100 True) 5,
              purchaseRecord ''u1'' (shopProduct 100 True) 8],
           requests := [newRequest ''u1'' ''p1'' None True 6 7,
              newRequest ''u1'' ''p1'' None True 9 10]\<rparr>,
        Inr (newRequest ''u1'' ''p1'' None True 9 10))"
  by (simp add: createRequest_wallet_eq
        [of _ _ "shopUser 100" _ "(shopProduct 100 True)\<lparr>salesCount := 1, viewCount := 1\<rparr>"]
      boughtShop_eq shop_eq shopUser_def shopProduct_def purchaseRecord_def
      activeRequestExists_def newRequest_def)

text \<open>
  C3, as the code behaves. When an active request of the pair (account, product)
  exists, a wallet \<open>createRequest\<close> for the pair is treated like a first one: with a
  balance that covers the price it succeeds, appends a new \<open>APPROVED\<close> request and a
  purchase record, takes the price from the balance and adds one to \<open>salesCount\<close>;
  with a balance below the price it throws ``Insufficient balance'' and none of the
  four changes.
\<close>

theorem createRequest_ignores_existing_request:
  assumes "users s userId = Some u" and "products s productId = Some p"
    and "activeRequestExists s userId productId"
  shows "(price p \<le> walletBalance u \<longrightarrow>
           (let (s', r) = createRequest s userId productId paymentProof True now1 now2 now3
            in r = Inr (newRequest userId productId paymentProof True now2 now3)
             \<and> requests s' = requests s @ [newRequest userId productId paymentProof True now2 now3]
             \<and> transactions s' = transactions s @ [purchaseRecord userId p now1]
             \<and> map_option walletBalance (users s' userId) = Some (walletBalance u - price p)
             \<and> map_option salesCount (products s' productId) = Some (salesCount p + 1)))
       \<and> (walletBalance u < price p \<longrightarrow>
           (let (s', r) = createRequest s userId productId paymentProof True now1 now2 now3
            in r = Inl InsufficientBalance
             \<and> requests s' = requests s
             \<and> transactions s' = transactions s
             \<and> map_option walletBalance (users s' userId) = Some (walletBalance u)
             \<and> map_option salesCount (products s' productId) = Some (salesCount p)))"
  using assms(1,2)
  by (simp add: createRequest_wallet_eq createRequest_insufficient_eq purchaseRecord_def)

theorem createRequest_ignores_existing_request_witness:
  "activeRequestExists (boughtShop 200) ''u1'' ''p1''
   \<and> snd (createRequest (boughtShop 200) ''u1'' ''p1'' None True 8 9 10)
       = Inr (newRequest ''u1'' ''p1'' None True 9 10)
   \<and> requests (fst (createRequest (boughtShop 200) ''u1'' ''p1'' None True 8 9 10))
       = [newRequest ''u1'' ''p1'' None True 6 7, newRequest ''u1'' ''p1'' None True 9 10]
   \<and> map_option walletBalance
        (users (fst (createRequest (boughtShop 200) ''u1'' ''p1'' None True 8 9 10)) ''u1'')
       = Some 0
   \<and> map_option salesCount
        (products (fst (createRequest (boughtShop 200) ''u1'' ''p1'' None True 8 9 10)) ''p1'')
       = Some 2
   \<and> activeRequestExists (boughtShop 150) ''u1'' ''p1''
   \<and> snd (createRequest (boughtShop 150) ''u1'' ''p1'' None True 8 9 10)
       = Inl InsufficientBalance
   \<and> requests (fst (createRequest (boughtShop 150) ''u1'' ''p1'' None True 8 9 10))
       = [newRequest ''u1'' ''p1'' None True 6 7]"
proof -
  have act: "activeRequestExists (boughtShop 200) ''u1'' ''p1''"
      "activeRequestExists (boughtShop 150) ''u1'' ''p1''"
    by (simp_all add: boughtShop_eq activeRequestExists_def newRequest_def)
  have u200: "users (boughtShop 200) ''u1'' = Some (shopUser 100)"
    and u150: "users (boughtShop 150) ''u1'' = Some (shopUser 50)"
    and p200: "products (boughtShop 200) ''p1'' =
        Some ((shopProduct 100 True)\<lparr>salesCount := 1, viewCount := 1\<rparr>)"
    and p150: "products (boughtShop 150) ''p1'' =
        Some ((shopProduct 100 True)\<lparr>salesCount := 1, viewCount := 1\<rparr>)"
    by (simp_all add: boughtShop_eq)
  have r200: "requests (boughtShop 200) = [newRequest ''u1'' ''p1'' None True 6 7]"
    and r150: "requests (boughtShop 150) = [newRequest ''u1'' ''p1'' None True 6 7]"
    by (simp_all add: boughtShop_eq)
  show ?thesis
    using createRequest_ignores_existing_request [OF u200 p200 act(1), of None 8 9 10]
      createRequest_ignores_existing_request [OF u150 p150 act(2), of None 8 9 10]
    by (simp add: act split_beta r200 r150 shopUser_def shopProduct_def)
qed

subsection \<open>C4: approving and rejecting a product\<close>

text \<open>
  A product is submitted (\<open>approved = false\<close>, no \<open>rejected\<close> field), approved, and
  then rejected: the second call returns \<open>true\<close> like the first and leaves the product
  with \<open>approved = false\<close> and \<open>rejected = true\<close>.
\<close>

theorem approve_then_reject_counterexample:
  "map_option approved (products (pendingShop 0 10) ''p1'') = Some False
   \<and> map_option rejected (products (pendingShop 0 10) ''p1'') = Some None
   \<and> snd (approveProduct (pendingShop 0 10) ''p1'') = Inr True
   \<and> map_option approved (products (fst (approveProduct (pendingShop 0 10) ''p1'')) ''p1'')
       = Some True
   \<and> snd (rejectProduct (fst (approveProduct (pendingShop 0 10) ''p1'')) ''p1'') = Inr True
   \<and> map_option approved
        (products (fst (rejectProduct (fst (approveProduct (pendingShop 0 10) ''p1'')) ''p1''))
           ''p1'')
       = Some False
   \<and> map_option rejected
        (products (fst (rejectProduct (fst (approveProduct (pendingShop 0 10) ''p1'')) ''p1''))
           ''p1'')
       = Some (Some True)"
  by (simp add: pendingShop_eq approveProduct_def rejectProduct_def updateDoc_products_def
      shopProduct_def)

text \<open>
  C4, as the code behaves. \<open>approveProduct\<close> and \<open>rejectProduct\<close> do not read the
  product: on every existing product, whatever its moderation state, \<open>approveProduct\<close>
  returns \<open>true\<close> and sets \<open>approved = true\<close>, and \<open>rejectProduct\<close> returns
  \<open>true\<close> and sets \<open>approved = false\<close> and \<open>rejected = true\<close>; nothing else in
  the store changes.
\<close>

theorem moderation_writes_unguarded:
  assumes "products s productId = Some p"
  shows "approveProduct s productId =
           (s\<lparr>products := (products s)(productId \<mapsto> p\<lparr>approved := True\<rparr>)\<rparr>, Inr True)
       \<and> rejectProduct s productId =
           (s\<lparr>products := (products s)(productId \<mapsto>
                 p\<lparr>approved := False, rejected := Some True\<rparr>)\<rparr>,
            Inr True)"
  using assms
  by (simp add: approveProduct_def rejectProduct_def updateDoc_products_Some)

theorem moderation_writes_unguarded_witness:
  "approveProduct (shop 0 10) ''p1'' = (shop 0 10, Inr True)
   \<and> rejectProduct (shop 0 10) ''p1'' =
       ((shop 0 10)\<lparr>products := [''p1'' \<mapsto>
            (shopProduct 10 False)\<lparr>rejected := Some True\<rparr>]\<rparr>,
        Inr True)"
  using moderation_writes_unguarded [of "shop 0 10" "''p1''" "shopProduct 10 True"]
  by (simp add: shop_eq shopProduct_def)

subsection \<open>C5: the Pro upgrade\<close>

lemma upgradeToPro_eq:
  assumes "users s userId = Some u"
  shows "(999 \<le> walletBalance u \<longrightarrow>
            upgradeToPro s userId now1 now2 =
              (s\<lparr>users := (users s)(userId \<mapsto>
                     u\<lparr>walletBalance := walletBalance u - 999, isPro := True,
                       proExpiry := Some (now1 + 365 * 86400000)\<rparr>),
                  transactions := transactions s @ [subscriptionRecord userId now2]\<rparr>,
               Inr (Some (u\<lparr>walletBalance := walletBalance u - 999, isPro := True,
                            proExpiry := Some (now1 + 365 * 86400000)\<rparr>))))
       \<and> (walletBalance u < 999 \<longrightarrow>
            upgradeToPro s userId now1 now2 = (s, Inl InsufficientBalancePro))"
  using assms
  by (simp add: upgradeToPro_def getSellerData_def updateDoc_users_Some
      addDoc_transactions_def subscriptionRecord_def Let_def)

lemma upgradeToPro_states_eq:
  assumes "users s userId = Some u"
  shows "(999 \<le> walletBalance u \<longrightarrow>
            upgradeToPro_states s userId now1 now2 =
              [s,
               s\<lparr>users := (users s)(userId \<mapsto>
                     u\<lparr>walletBalance := walletBalance u - 999, isPro := True,
                       proExpiry := Some (now1 + 365 * 86400000)\<rparr>)\<rparr>,
               s\<lparr>users := (users s)(userId \<mapsto>
                     u\<lparr>walletBalance := walletBalance u - 999, isPro := True,
                       proExpiry := Some (now1 + 365 * 86400000)\<rparr>),
                  transactions := transactions s @ [subscriptionRecord userId now2]\<rparr>])
       \<and> (walletBalance u < 999 \<longrightarrow> upgradeToPro_states s userId now1 now2 = [s])"
  using assms
  by (simp add: upgradeToPro_states_def getSellerData_def updateDoc_users_Some
      addDoc_transactions_def subscriptionRecord_def)

lemma upgradeToPro_states_last:
  "last (upgradeToPro_states s userId now1 now2) = fst (upgradeToPro s userId now1 now2)"
proof (cases "users s userId")
  case None
  then show ?thesis
    by (simp add: upgradeToPro_states_def upgradeToPro_def getSellerData_def)
next
  case (Some u)
  then show ?thesis
    by (cases "walletBalance u < 999")
       (simp_all add: upgradeToPro_states_def upgradeToPro_def getSellerData_def
          updateDoc_users_Some Let_def)
qed

text \<open>
  \<open>upgradeToPro\<close> charges and activates in one write and appends the subscription
  record in a second, separate awaited write. For Ada with balance 1000, the store
  between the two writes has balance 1 and \<open>isPro = true\<close> but only her deposit
  record and no subscription record: charge, activation and record are not one atomic
  unit. The last store of the list is the one \<open>upgradeToPro\<close> returns.
\<close>

theorem upgradeToPro_intermediate_counterexample:
  "upgradeToPro_states (shop 1000 0) ''u1'' 50 51 ! 1
     = (shop 1000 0)\<lparr>users := [''u1'' \<mapsto>
          (shopUser 1)\<lparr>isPro := True, proExpiry := Some (50 + 365 * 86400000)\<rparr>]\<rparr>
   \<and> map_option walletBalance
        (users (upgradeToPro_states (shop 1000 0) ''u1'' 50 51 ! 1) ''u1'') = Some 1
   \<and> map_option isPro
        (users (upgradeToPro_states (shop 1000 0) ''u1'' 50 51 ! 1) ''u1'') = Some True
   \<and> transactions (upgradeToPro_states (shop 1000 0) ''u1'' 50 51 ! 1)
       = [depositRecord ''u1'' 1000 2]
   \<and> last (upgradeToPro_states (shop 1000 0) ''u1'' 50 51)
       = fst (upgradeToPro (shop 1000 0) ''u1'' 50 51)"
  by (simp add: upgradeToPro_states_last)
     (simp add: upgradeToPro_states_def getSellerData_def updateDoc_users_def shop_eq
        shopUser_def)

text \<open>
  C5, as the code behaves. For an existing account whose balance covers the fee of
  999, \<open>upgradeToPro\<close> makes exactly two writes, one after the other. The first takes
  999 from the balance, sets \<open>isPro\<close> and sets \<open>proExpiry\<close> to the clock plus 365
  days, together; the second appends exactly one \<open>subscription\<close> record of amount
  \<open>-999\<close> and changes nothing else. A call that runs to its end answers the updated
  account (balance 1000 gives balance 1). For an existing account whose balance is
  below 999 the call throws before any write and the store is unchanged.
\<close>

theorem upgradeToPro_two_writes:
  assumes "users s userId = Some u"
  shows "(999 \<le> walletBalance u \<longrightarrow>
            (let u' = u\<lparr>walletBalance := walletBalance u - 999, isPro := True,
                         proExpiry := Some (now1 + 365 * 86400000)\<rparr>;
                 s1 = s\<lparr>users := (users s)(userId \<mapsto> u')\<rparr>;
                 s2 = s1\<lparr>transactions := transactions s @ [subscriptionRecord userId now2]\<rparr>
             in upgradeToPro_states s userId now1 now2 = [s, s1, s2]
              \<and> upgradeToPro s userId now1 now2 = (s2, Inr (Some u'))))
       \<and> (walletBalance u < 999 \<longrightarrow>
            upgradeToPro_states s userId now1 now2 = [s]
          \<and> upgradeToPro s userId now1 now2 = (s, Inl InsufficientBalancePro))"
  using upgradeToPro_eq [OF assms, of now1 now2] upgradeToPro_states_eq [OF assms, of now1 now2]
  by (simp add: Let_def)

theorem upgradeToPro_two_writes_witness:
  "upgradeToPro_states (shop 1000 0) ''u1'' 50 51 =
     [shop 1000 0,
      (shop 1000 0)\<lparr>users := [''u1'' \<mapsto>
          (shopUser 1)\<lparr>isPro := True, proExpiry := Some (50 + 365 * 86400000)\<rparr>]\<rparr>,
      (shop 1000 0)\<lparr>users := [''u1'' \<mapsto>
          (shopUser 1)\<lparr>isPro := True, proExpiry := Some (50 + 365 * 86400000)\<rparr>],
        transactions := [depositRecord ''u1'' 1000 2, subscriptionRecord ''u1'' 51]\<rparr>]
   \<and> upgradeToPro (shop 1000 0) ''u1'' 50 51 =
     ((shop 1000 0)\<lparr>users := [''u1'' \<mapsto>
          (shopUser 1)\<lparr>isPro := True, proExpiry := Some (50 + 365 * 86400000)\<rparr>],
        transactions := [depositRecord ''u1'' 1000 2, subscriptionRecord ''u1'' 51]\<rparr>,
      Inr (Some ((shopUser 1)\<lparr>isPro := True, proExpiry := Some (50 + 365 * 86400000)\<rparr>)))
   \<and> t_amount (subscriptionRecord ''u1'' 51) = - 999
   \<and> t_type (subscriptionRecord ''u1'' 51) = subscription
   \<and> upgradeToPro_states (shop 998 0) ''u1'' 50 51 = [shop 998 0]
   \<and> upgradeToPro (shop 998 0) ''u1'' 50 51 = (shop 998 0, Inl InsufficientBalancePro)"
  using upgradeToPro_two_writes [of "shop 1000 0" "''u1''" "shopUser 1000" 50 51]
    upgradeToPro_two_writes [of "shop 998 0" "''u1''" "shopUser 998" 50 51]
  by (simp add: shopUser_def shop_eq subscriptionRecord_def Let_def)

subsection \<open>C6: wallet purchase and the moderation state\<close>

text \<open>
  \<open>createRequest\<close> does not read \<open>approved\<close>. On the product that was submitted
  and never approved, Ada's wallet purchase succeeds: she is charged 100, a purchase
  record is appended, \<open>salesCount\<close> becomes 1 and the request is \<open>APPROVED\<close>.
\<close>

theorem createRequest_unapproved_counterexample:
  "map_option approved (products (pendingShop 200 100) ''p1'') = Some False
   \<and> createRequest (pendingShop 200 100) ''u1'' ''p1'' None True 5 6 7 =
       ((pendingShop 200 100)\<lparr>users := [''u1'' \<mapsto> shopUser 100],
           products := [''p1'' \<mapsto> (shopProduct 100 False)\<lparr>salesCount := 1, viewCount := 1\<rparr>],
           transactions := [depositRecord ''u1'' 200 2,
              purchaseRecord ''u1'' (shopProduct 100 False) 5],
           requests := [newRequest ''u1'' ''p1'' None True 6 7]\<rparr>,
        Inr (newRequest ''u1'' ''p1'' None True 6 7))
   \<and> r_status (newRequest ''u1'' ''p1'' None True 6 7) = APPROVED"
  by (simp add: createRequest_wallet_eq [of _ _ "shopUser 200" _ "shopProduct 100 False"]
      pendingShop_eq shopUser_def shopProduct_def purchaseRecord_def newRequest_def)

text \<open>
  C6, as the code behaves. A wallet \<open>createRequest\<close> does not check the product's
  moderation state: on a product that is not approved, an account whose balance covers
  the price is charged the price, a purchase record is appended, \<open>salesCount\<close> grows
  by one and an \<open>APPROVED\<close> request is created; the product stays not approved.
\<close>

theorem createRequest_ignores_moderation:
  assumes "users s userId = Some u" and "products s productId = Some p"
    and "\<not> approved p" and "price p \<le> walletBalance u"
  shows "(let (s', r) = createRequest s userId productId paymentProof True now1 now2 now3
          in r = Inr (newRequest userId productId paymentProof True now2 now3)
           \<and> r_status (newRequest userId productId paymentProof True now2 now3) = APPROVED
           \<and> requests s' = requests s @ [newRequest userId productId paymentProof True now2 now3]
           \<and> transactions s' = transactions s @ [purchaseRecord userId p now1]
           \<and> map_option walletBalance (users s' userId) = Some (walletBalance u - price p)
           \<and> map_option salesCount (products s' productId) = Some (salesCount p + 1)
           \<and> map_option approved (products s' productId) = Some False)"
  using assms
  by (simp add: createRequest_wallet_eq purchaseRecord_def newRequest_def)

theorem createRequest_ignores_moderation_witness:
  "\<not> approved (shopProduct 100 False)
   \<and> snd (createRequest (pendingShop 200 100) ''u1'' ''p1'' None True 5 6 7)
       = Inr (newRequest ''u1'' ''p1'' None True 6 7)
   \<and> transactions (fst (createRequest (pendingShop 200 100) ''u1'' ''p1'' None True 5 6 7))
       = [depositRecord ''u1'' 200 2, purchaseRecord ''u1'' (shopProduct 100 False) 5]
   \<and> map_option walletBalance
        (users (fst (createRequest (pendingShop 200 100) ''u1'' ''p1'' None True 5 6 7)) ''u1'')
       = Some 100
   \<and> map_option salesCount
        (products (fst (createRequest (pendingShop 200 100) ''u1'' ''p1'' None True 5 6 7)) ''p1'')
       = Some 1"
  using createRequest_ignores_moderation
    [of "pendingShop 200 100" "''u1''" "shopUser 200" "''p1''" "shopProduct 100 False"
        None 5 6 7]
  by (simp add: pendingShop_eq shopUser_def shopProduct_def split_beta)

subsection \<open>C7: deposits\<close>

text \<open>
  \<open>addFunds\<close> does not look at the sign of the amount. A deposit of \<open>-50\<close> on
  Ada's balance of 100 succeeds: it answers 50, the balance is 50 and a \<open>deposit\<close>
  record of amount \<open>-50\<close> is appended.
\<close>

theorem addFunds_negative_counterexample:
  "addFunds (shop 100 0) ''u1'' (- 50) 9 =
     ((shop 100 0)\<lparr>users := [''u1'' \<mapsto> shopUser 50],
        transactions := [depositRecord ''u1'' 100 2, depositRecord ''u1'' (- 50) 9]\<rparr>,
      Inr 50)"
  by (simp add: shop_eq addFunds_def updateDoc_users_def addDoc_transactions_def
      getSellerData_def shopUser_def depositRecord_def Let_def)

text \<open>
  C7, as the code behaves. \<open>addFunds\<close> validates nothing: for every amount,
  positive, zero or negative, on an existing account it adds the amount to the balance,
  appends one \<open>deposit\<close> record carrying the amount and answers the new balance; on
  an id without account the first write is rejected and the store is unchanged.
\<close>

theorem addFunds_any_amount:
  "(users s userId = Some u \<longrightarrow>
      addFunds s userId amount now =
        (s\<lparr>users := (users s)(userId \<mapsto> u\<lparr>walletBalance := walletBalance u + amount\<rparr>),
            transactions := transactions s @ [depositRecord userId amount now]\<rparr>,
         Inr (walletBalance u + amount)))
   \<and> (users s userId = None \<longrightarrow> addFunds s userId amount now = (s, Inl NotFound))"
  by (simp add: addFunds_def updateDoc_users_def addDoc_transactions_def
      getSellerData_def depositRecord_def Let_def)

theorem addFunds_any_amount_witness:
  "addFunds (shop 100 0) ''u1'' 25 9 =
     ((shop 100 0)\<lparr>users := [''u1'' \<mapsto> shopUser 125],
        transactions := [depositRecord ''u1'' 100 2, depositRecord ''u1'' 25 9]\<rparr>,
      Inr 125)
   \<and> addFunds (shop 100 0) ''u1'' 0 9 =
     ((shop 100 0)\<lparr>transactions := [depositRecord ''u1'' 100 2, depositRecord ''u1'' 0 9]\<rparr>,
      Inr 100)
   \<and> addFunds (shop 100 0) ''u9'' 25 9 = (shop 100 0, Inl NotFound)"
  using addFunds_any_amount [of "shop 100 0" "''u1''" "shopUser 100" 25 9]
    addFunds_any_amount [of "shop 100 0" "''u1''" "shopUser 100" 0 9]
    addFunds_any_amount [of "shop 100 0" "''u9''" "shopUser 100" 25 9]
  by (simp add: shop_eq shopUser_def)

subsection \<open>C8: reading a product counts a view\<close>

text \<open>
  C8. For every existing product, \<open>getProductById\<close> answers the document it read
  and leaves the store with that product's \<open>viewCount\<close> one higher and nothing else
  changed; and every wallet \<open>createRequest\<close> on the product, whether it succeeds,
  fails for a missing account or fails for an insufficient balance, leaves the
  \<open>viewCount\<close> one higher.
\<close>

theorem getProductById_bumps_viewCount:
  assumes "products s productId = Some p"
  shows "getProductById s productId =
           (s\<lparr>products := (products s)(productId \<mapsto> p\<lparr>viewCount := viewCount p + 1\<rparr>)\<rparr>,
            Inr (Some (productId, p)))
       \<and> map_option viewCount
            (products (fst (createRequest s userId productId paymentProof True now1 now2 now3))
               productId)
          = Some (viewCount p + 1)"
proof (intro conjI)
  show "getProductById s productId =
           (s\<lparr>products := (products s)(productId \<mapsto> p\<lparr>viewCount := viewCount p + 1\<rparr>)\<rparr>,
            Inr (Some (productId, p)))"
    using assms by (rule getProductById_Some)
next
  show "map_option viewCount
            (products (fst (createRequest s userId productId paymentProof True now1 now2 now3))
               productId)
          = Some (viewCount p + 1)"
  proof (cases "users s userId")
    case None
    with assms show ?thesis
      by (simp add: createRequest_def getSellerData_def getProductById_Some)
  next
    case (Some u)
    show ?thesis
    proof (cases "walletBalance u < price p")
      case True
      with Some assms show ?thesis by (simp add: createRequest_insufficient_eq)
    next
      case False
      with Some assms show ?thesis by (simp add: createRequest_wallet_eq)
    qed
  qed
qed

theorem getProductById_bumps_viewCount_witness:
  "map_option viewCount (products (fst (getProductById (shop 500 999) ''p1'')) ''p1'') = Some 1
   \<and> snd (createRequest (shop 500 999) ''u1'' ''p1'' None True 5 6 7) = Inl InsufficientBalance
   \<and> map_option viewCount
        (products (fst (createRequest (shop 500 999) ''u1'' ''p1'' None True 5 6 7)) ''p1'')
      = Some 1"
  using getProductById_bumps_viewCount
    [of "shop 500 999" "''p1''" "shopProduct 999 True" "''u1''" None 5 6 7]
    createRequest_insufficient_eq
    [of "shop 500 999" "''u1''" "shopUser 500" "''p1''" "shopProduct 999 True" None 5 6 7]
  by (simp add: shopProduct_def shopUser_def)

subsection \<open>C9: toggling the wishlist twice\<close>

text \<open>
  Ada's wishlist is the array \<open>[p1, p2]\<close>. Toggling \<open>p1\<close> twice removes it and
  appends it again: the stored array is \<open>[p2, p1]\<close>, not the original one.
\<close>

theorem toggleWishlist_twice_counterexample:
  "map_option wishlist (users wishShop ''u1'') = Some [''p1'', ''p2'']
   \<and> snd (toggleWishlist (fst (toggleWishlist wishShop ''u1'' ''p1'')) ''u1'' ''p1'')
       = Inr [''p2'', ''p1'']
   \<and> map_option wishlist
        (users (fst (toggleWishlist (fst (toggleWishlist wishShop ''u1'' ''p1'')) ''u1'' ''p1''))
           ''u1'')
       = Some [''p2'', ''p1'']
   \<and> [''p2'', ''p1''] \<noteq> [''p1'', ''p2'']"
  by (simp add: wishShop_users toggleWishlist_def getSellerData_def updateDoc_users_def
      shopUser_def Let_def)

text \<open>
  C9, as the code behaves. For an existing account, one \<open>toggleWishlist\<close> appends
  the id when it is absent and removes every occurrence of it when it is present; two
  in a row leave a wishlist with the same set of ids as the original. The array is
  the original one when the id was absent; when it was present the id has moved to the
  end.
\<close>

theorem toggleWishlist_twice:
  assumes "users s userId = Some u"
  shows "(let (s1, r1) = toggleWishlist s userId productId;
              (s2, r2) = toggleWishlist s1 userId productId;
              wl = (if productId \<in> set (wishlist u)
                    then filter (\<lambda>i. i \<noteq> productId) (wishlist u) @ [productId]
                    else wishlist u)
          in r1 = Inr (if productId \<in> set (wishlist u)
                       then filter (\<lambda>i. i \<noteq> productId) (wishlist u)
                       else wishlist u @ [productId])
           \<and> r2 = Inr wl
           \<and> s2 = s\<lparr>users := (users s)(userId \<mapsto> u\<lparr>wishlist := wl\<rparr>)\<rparr>
           \<and> set wl = set (wishlist u))"
proof -
  let ?w1 = "if productId \<in> set (wishlist u)
             then filter (\<lambda>i. i \<noteq> productId) (wishlist u)
             else wishlist u @ [productId]"
  let ?s1 = "s\<lparr>users := (users s)(userId \<mapsto> u\<lparr>wishlist := ?w1\<rparr>)\<rparr>"
  have first: "toggleWishlist s userId productId = (?s1, Inr ?w1)"
    using assms by (rule toggleWishlist_eq)
  have u1: "users ?s1 userId = Some (u\<lparr>wishlist := ?w1\<rparr>)"
    by simp
  have filt: "productId \<notin> set (wishlist u) \<Longrightarrow>
      filter (\<lambda>i. i \<noteq> productId) (wishlist u) = wishlist u"
    by (auto simp: filter_id_conv)
  show ?thesis
    unfolding first
    by (auto simp add: toggleWishlist_eq [OF u1] Let_def filt)
qed

theorem toggleWishlist_twice_witness:
  "snd (toggleWishlist (fst (toggleWishlist wishShop ''u1'' ''p1'')) ''u1'' ''p1'')
     = Inr [''p2'', ''p1'']
   \<and> set [''p2'', ''p1''] = set [''p1'', ''p2'']
   \<and> toggleWishlist (fst (toggleWishlist wishShop ''u1'' ''p3'')) ''u1'' ''p3''
     = (wishShop, Inr [''p1'', ''p2''])"
proof -
  have same: "wishShop\<lparr>users := (users wishShop)(''u1'' \<mapsto>
      (shopUser 0)\<lparr>wishlist := [''p1'', ''p2'']\<rparr>)\<rparr> = wishShop"
    by (simp add: map_upd_triv wishShop_users)
  have a: "snd (toggleWishlist (fst (toggleWishlist wishShop ''u1'' ''p1'')) ''u1'' ''p1'')
     = Inr [''p2'', ''p1''] \<and> set [''p2'', ''p1''] = set [''p1'', ''p2'']"
    using toggleWishlist_twice [OF wishShop_users, of "''p1''"]
    by (simp add: split_beta Let_def)
  have b: "toggleWishlist (fst (toggleWishlist wishShop ''u1'' ''p3'')) ''u1'' ''p3''
     = (wishShop, Inr [''p1'', ''p2''])"
    using toggleWishlist_twice [OF wishShop_users, of "''p3''"]
    by (simp add: split_beta Let_def same prod_eq_iff)
  from a b show ?thesis by simp
qed

subsection \<open>C10: deleting a filter that is not there\<close>

text \<open>
  C10. For an existing account and a filter id that none of its saved filters has,
  \<open>deleteUserFilter\<close> succeeds, answers the stored list and leaves the store as it
  was.
\<close>

theorem deleteUserFilter_unknown_id:
  assumes "users s userId = Some u" and "filterId \<notin> f_id ` set (savedFilters u)"
  shows "deleteUserFilter s userId filterId = (s, Inr (savedFilters u))"
proof -
  have "filter (\<lambda>f. f_id f \<noteq> filterId) (savedFilters u) = savedFilters u"
    using assms(2) by (auto simp: filter_id_conv)
  moreover have "s\<lparr>users := (users s)(userId \<mapsto> u)\<rparr> = s"
    using assms(1) by (simp add: map_upd_triv)
  ultimately show ?thesis
    using assms(1)
    by (simp add: deleteUserFilter_def getSellerData_def updateDoc_users_Some)
qed

theorem deleteUserFilter_unknown_id_witness:
  "''filt9'' \<notin> f_id ` set [savedDemoFilter]
   \<and> deleteUserFilter filterShop ''u1'' ''filt9'' = (filterShop, Inr [savedDemoFilter])"
  using deleteUserFilter_unknown_id
    [of filterShop "''u1''" "(shopUser 0)\<lparr>savedFilters := [savedDemoFilter]\<rparr>" "''filt9''"]
  by (simp add: filterShop_users savedDemoFilter_def)

end
